theory Spec2Isabelle
  imports Complex_Main "HOL-Library.Log_Nat"
begin

section \<open>JavaScript strings\<close>

text \<open>
  A JavaScript string is a sequence of UTF-16 code units; \<^verbatim>\<open>length\<close>, indexing,
  \<^verbatim>\<open>slice\<close>, \<^verbatim>\<open>split\<close> and \<^verbatim>\<open>trim\<close> all work on code units. A string is modelled as
  the list of its code units, as integers; \<open>str\<close> turns an ASCII literal into
  such a list and \<open>cu\<close> a character into its code unit.
\<close>

type_synonym jstring = "int list"

definition cu :: "char \<Rightarrow> int" where
  "cu c = of_char c"

definition str :: "string \<Rightarrow> jstring" where
  "str s = map cu s"

text \<open>
  \<^verbatim>\<open>toLowerCase\<close>. \<^verbatim>\<open>A..Z\<close> go to \<^verbatim>\<open>a..z\<close> and the Kelvin sign U+212A goes to \<^verbatim>\<open>k\<close>.
  JavaScript lower-cases other letters too, each to a result with a code unit beyond
  ASCII; those are left as they are here. The sources only compare the result with ASCII
  names, and these comparisons come out the same.
\<close>

definition lower_unit :: "int \<Rightarrow> int" where
  "lower_unit c = (if 65 \<le> c \<and> c \<le> 90 then c + 32 else if c = 0x212A then 107 else c)"

definition toLowerCase :: "jstring \<Rightarrow> jstring" where
  "toLowerCase s = map lower_unit s"

text \<open>
  The code units \<^verbatim>\<open>trim\<close> and \<^verbatim>\<open>parseInt\<close> skip: the white space of the language (tab,
  vertical tab, form feed, space, no-break space, U+FEFF and the space separators
  U+1680, U+2000 to U+200A, U+202F, U+205F, U+3000) and its line terminators (line
  feed, carriage return, U+2028, U+2029).
\<close>

definition is_ws :: "int \<Rightarrow> bool" where
  "is_ws c =
     (c \<in> {0x09, 0x0A, 0x0B, 0x0C, 0x0D, 0x20, 0xA0, 0x1680, 0x2028, 0x2029, 0x202F, 0x205F,
            0x3000, 0xFEFF} \<or> (0x2000 \<le> c \<and> c \<le> 0x200A))"

definition trim :: "jstring \<Rightarrow> jstring" where
  "trim s = rev (dropWhile is_ws (rev (dropWhile is_ws s)))"

text \<open>\<^verbatim>\<open>s.split(c)\<close> for a one-character separator: always at least one segment.\<close>

fun split_on :: "int \<Rightarrow> jstring \<Rightarrow> jstring list" where
  "split_on c [] = [[]]"
| "split_on c (x # xs) =
     (if x = c then [] # split_on c xs
      else (case split_on c xs of
              [] \<Rightarrow> [[x]]
            | y # ys \<Rightarrow> (x # y) # ys))"

text \<open>\<^verbatim>\<open>arr.pop()\<close>: the last element, \<^verbatim>\<open>undefined\<close> on an empty array.\<close>

definition pop :: "'a list \<Rightarrow> 'a option" where
  "pop xs = (case rev xs of [] \<Rightarrow> None | x # _ \<Rightarrow> Some x)"

text \<open>\<^verbatim>\<open>arr.join(sep)\<close>.\<close>

fun join :: "jstring \<Rightarrow> jstring list \<Rightarrow> jstring" where
  "join sep [] = []"
| "join sep [x] = x"
| "join sep (x # y # ys) = x @ sep @ join sep (y # ys)"

text \<open>\<^verbatim>\<open>s.lastIndexOf(c)\<close>: the index of the last occurrence, \<^verbatim>\<open>-1\<close> when absent.\<close>

fun lastIndexOf_from :: "int \<Rightarrow> jstring \<Rightarrow> int \<Rightarrow> int \<Rightarrow> int" where
  "lastIndexOf_from c [] i found = found"
| "lastIndexOf_from c (x # xs) i found =
     lastIndexOf_from c xs (i + 1) (if x = c then i else found)"

definition lastIndexOf :: "int \<Rightarrow> jstring \<Rightarrow> int" where
  "lastIndexOf c s = lastIndexOf_from c s 0 (- 1)"

text \<open>\<^verbatim>\<open>s.substring(0, e)\<close>: a negative end counts as 0.\<close>

definition substring0 :: "jstring \<Rightarrow> int \<Rightarrow> jstring" where
  "substring0 s e = take (nat (max 0 e)) s"

text \<open>\<^verbatim>\<open>s.slice(a, b)\<close> for \<^verbatim>\<open>0 \<le> a \<le> b\<close>.\<close>

definition slice :: "nat \<Rightarrow> nat \<Rightarrow> jstring \<Rightarrow> jstring" where
  "slice a b s = take (b - a) (drop a s)"

text \<open>Decimal rendering of a number inside a template string.\<close>

fun digits_of :: "nat \<Rightarrow> jstring" where
  "digits_of n =
     (if n < 10 then [48 + int n]
      else digits_of (n div 10) @ [48 + int (n mod 10)])"

section \<open>getContrastingTextColor (Dashboard, NoteViewer)\<close>

text \<open>
  \<^verbatim>\<open>parseInt(s, 16)\<close>: leading white space is skipped, then an optional sign, then an
  optional \<^verbatim>\<open>0x\<close> or \<^verbatim>\<open>0X\<close>, then the longest run of hexadecimal digits. With no
  digit the result is \<^verbatim>\<open>NaN\<close>, here \<open>None\<close>. It never throws.
\<close>

definition hex_digit :: "int \<Rightarrow> nat option" where
  "hex_digit n =
     (if 48 \<le> n \<and> n \<le> 57 then Some (nat (n - 48))
      else if 97 \<le> n \<and> n \<le> 102 then Some (nat (n - 87))
      else if 65 \<le> n \<and> n \<le> 70 then Some (nat (n - 55))
      else None)"

fun hex_run :: "jstring \<Rightarrow> nat option \<Rightarrow> nat option" where
  "hex_run [] acc = acc"
| "hex_run (c # cs) acc =
     (case hex_digit c of
        None \<Rightarrow> acc
      | Some d \<Rightarrow> hex_run cs (Some (16 * (case acc of None \<Rightarrow> 0 | Some a \<Rightarrow> a) + d)))"

definition strip_0x :: "jstring \<Rightarrow> jstring" where
  "strip_0x s =
     (case s of
        c # d # rest \<Rightarrow>
          (if c = cu CHR ''0'' \<and> (d = cu CHR ''x'' \<or> d = cu CHR ''X'') then rest else s)
      | _ \<Rightarrow> s)"

definition parseInt16 :: "jstring \<Rightarrow> int option" where
  "parseInt16 s =
     (let t = dropWhile is_ws s;
          (neg, u) = (case t of
                        c # rest \<Rightarrow> (if c = cu CHR ''-'' then (True, rest)
                                     else if c = cu CHR ''+'' then (False, rest)
                                     else (False, t))
                      | [] \<Rightarrow> (False, t))
      in case hex_run (strip_0x u) None of
           None \<Rightarrow> None
         | Some n \<Rightarrow> Some (if neg then - int n else int n))"

text \<open>
  The arithmetic of the luminance is in IEEE 754 doubles. A double is modelled as the
  rational it denotes, and every operation as the exact operation followed by rounding
  to the nearest double, ties to even: \<open>to_double\<close> rounds a rational to 53 significant
  bits. The values met here (products and sums of the three weights with integers of
  at most two hexadecimal digits) are far from overflow and from the subnormal range.
\<close>

definition pow2 :: "int \<Rightarrow> rat" where
  "pow2 k = (if 0 \<le> k then 2 ^ nat k else 1 / 2 ^ nat (- k))"

text \<open>The exponent \<open>e\<close> with \<open>2 ^ e \<le> \<bar>x\<bar> < 2 ^ (e + 1)\<close>, for \<open>x \<noteq> 0\<close>.\<close>

definition exponent_of :: "rat \<Rightarrow> int" where
  "exponent_of x =
     (let (p, q) = quotient_of \<bar>x\<bar>;
          k = bitlen p - bitlen q
      in if pow2 k \<le> \<bar>x\<bar> then k else k - 1)"

definition round_half_even :: "rat \<Rightarrow> int" where
  "round_half_even y =
     (let f = \<lfloor>y\<rfloor>; d = y - of_int f in
      if d < 1 / 2 then f
      else if 1 / 2 < d then f + 1
      else if even f then f else f + 1)"

definition to_double :: "rat \<Rightarrow> rat" where
  "to_double x =
     (if x = 0 then 0
      else let e = exponent_of x
           in of_int (round_half_even (x * pow2 (52 - e))) * pow2 (e - 52))"

text \<open>
  \<^verbatim>\<open>(0.299 * r + 0.587 * g + 0.114 * b) / 255\<close>, evaluated left to right, each literal
  and each operation rounded.
\<close>

definition luminance :: "int \<Rightarrow> int \<Rightarrow> int \<Rightarrow> rat" where
  "luminance r g b =
     to_double
       (to_double
          (to_double (to_double (to_double 0.299 * of_int r) +
                      to_double (to_double 0.587 * of_int g)) +
           to_double (to_double 0.114 * of_int b))
        / 255)"

text \<open>\<^verbatim>\<open>luminance > 0.5\<close>. A comparison with \<^verbatim>\<open>NaN\<close> is false.\<close>

definition luminance_gt_half :: "int option \<Rightarrow> int option \<Rightarrow> int option \<Rightarrow> bool" where
  "luminance_gt_half r g b =
     (case (r, g, b) of
        (Some r', Some g', Some b') \<Rightarrow> luminance r' g' b' > 0.5
      | _ \<Rightarrow> False)"

definition getContrastingTextColor :: "jstring \<Rightarrow> jstring" where
  "getContrastingTextColor hexColor =
     (if hexColor = [] \<or> length hexColor \<noteq> 7 \<or> hexColor ! 0 \<noteq> cu CHR ''#'' then str ''#000000''
      else
        let r = parseInt16 (slice 1 3 hexColor);
            g = parseInt16 (slice 3 5 hexColor);
            b = parseInt16 (slice 5 7 hexColor)
        in if luminance_gt_half r g b then str ''#000000'' else str ''#FFFFFF'')"

section \<open>Import page: data\<close>

text \<open>
  A thrown value with its \<^verbatim>\<open>message\<close> property (\<open>None\<close> when it has none).
\<close>

datatype exn = Exn "jstring option"

text \<open>\<^verbatim>\<open>err.message || 'Unknown error'\<close>: an absent or empty message is falsy.\<close>

fun message_or_unknown :: "exn \<Rightarrow> jstring" where
  "message_or_unknown (Exn None) = str ''Unknown error''"
| "message_or_unknown (Exn (Some m)) = (if m = [] then str ''Unknown error'' else m)"

type_synonym bytes = "nat list"

text \<open>
  The external collaborators are parameters. A promise that rejects is \<open>Inl\<close> of the
  thrown value, one that resolves is \<open>Inr\<close> of the result.
\<close>

datatype pdf_page = PdfPage (getTextContent: "exn + jstring list")

record pdf_doc =
  numPages :: nat
  getPage :: "nat \<Rightarrow> exn + pdf_page"

datatype reader_outcome =
    ReaderError jstring
  | ReaderLoad "jstring option"

text \<open>
  A browser \<^verbatim>\<open>File\<close>: its name and type, and what its readers answer when awaited.
\<close>

record js_file =
  name :: jstring
  ftype :: jstring
  text_result :: "exn + jstring"
  arrayBuffer_result :: "exn + bytes"
  reader_result :: reader_outcome

datatype note_input =
  NoteInput (in_title: jstring) (in_content: jstring) (in_status: jstring)
            (in_is_favorite: bool) (in_is_archived: bool)

text \<open>The object \<^verbatim>\<open>createNote\<close> resolves to; an absent \<^verbatim>\<open>id\<close> is the empty string.\<close>

datatype note_data = NoteData (nd_id: jstring)

record world =
  getDocument :: "bytes \<Rightarrow> exn + pdf_doc"
  extractRawText :: "bytes \<Rightarrow> exn + jstring"
  performOCRWithGemini :: "jstring \<Rightarrow> jstring \<Rightarrow> exn + jstring option"
  createNote :: "note_input \<Rightarrow> exn + note_data option"
  processNoteWithAI :: "jstring \<Rightarrow> exn option"

datatype status = Pending | Processing | Completed | Error

record file_status =
  status :: status
  message :: "jstring option"

text \<open>
  The notifications shown through the \<^verbatim>\<open>toast\<close> object of sonner, by the method
  called: \<^verbatim>\<open>toast.success\<close>, \<^verbatim>\<open>toast.error\<close>, \<^verbatim>\<open>toast.info\<close>.
\<close>

datatype toast_kind = Success | ErrorToast | Info

text \<open>Calls that leave the component, in the order they are made.\<close>

datatype event =
    Toast toast_kind jstring
  | Navigate jstring
  | InvalidateQueries jstring
  | FileText jstring
  | FileArrayBuffer jstring
  | GetDocument bytes
  | GetPage nat
  | GetTextContent nat
  | ExtractRawText bytes
  | ReadAsDataURL jstring
  | PerformOCR jstring jstring
  | CreateNote note_input
  | ProcessNoteWithAI jstring
  | ApiToggleFavorite jstring bool

text \<open>
  The values one render of \<^verbatim>\<open>ImportPage\<close> binds with \<^verbatim>\<open>const\<close>: the handlers created
  by that render read these, whatever happens to the state afterwards.
\<close>

record render =
  user :: bool
  authLoading :: bool
  files :: "js_file list"
  fileProgress :: "jstring \<rightharpoonup> file_status"

text \<open>
  The component's current state, which the setters update, and the calls made so far.
\<close>

record store =
  cur_files :: "js_file list"
  cur_dragging :: bool
  cur_isProcessing :: bool
  cur_fileProgress :: "jstring \<rightharpoonup> file_status"
  effects :: "event list"

text \<open>What \<^verbatim>\<open>useAuth()\<close> returns to a render.\<close>

record auth =
  auth_user :: bool
  auth_loading :: bool

definition ImportPage :: "auth \<Rightarrow> store \<Rightarrow> render" where
  "ImportPage a s =
     \<lparr>user = auth_user a, authLoading = auth_loading a,
      files = cur_files s, fileProgress = cur_fileProgress s\<rparr>"

definition emit :: "event list \<Rightarrow> store \<Rightarrow> store" where
  "emit evs s = s\<lparr>effects := effects s @ evs\<rparr>"

definition toast :: "toast_kind \<Rightarrow> jstring \<Rightarrow> store \<Rightarrow> store" where
  "toast k m s = emit [Toast k m] s"

definition navigate :: "jstring \<Rightarrow> store \<Rightarrow> store" where
  "navigate path s = emit [Navigate path] s"

definition invalidateQueries :: "jstring \<Rightarrow> store \<Rightarrow> store" where
  "invalidateQueries k s = emit [InvalidateQueries k] s"

text \<open>
  \<^verbatim>\<open>toast.warn(...)\<close>. The \<^verbatim>\<open>toast\<close> object of sonner has no \<^verbatim>\<open>warn\<close> property (its
  warning call is \<^verbatim>\<open>toast.warning\<close>), so the call throws a \<^verbatim>\<open>TypeError\<close> and shows
  nothing.
\<close>

definition toast_warn :: "jstring \<Rightarrow> store \<Rightarrow> exn + store" where
  "toast_warn m s = Inl (Exn (Some (str ''toast.warn is not a function'')))"

text \<open>
  \<^verbatim>\<open>setFileProgress(prev => ({ ...prev, [key]: st }))\<close>. A computed key defines an own
  property whatever the key is, and the spread copies own properties.
\<close>

definition setFileProgress :: "jstring \<Rightarrow> file_status \<Rightarrow> store \<Rightarrow> store" where
  "setFileProgress key st s = s\<lparr>cur_fileProgress := (cur_fileProgress s)(key \<mapsto> st)\<rparr>"

section \<open>Import page: selecting files\<close>

text \<open>
  The \<^verbatim>\<open>reduce\<close> that builds \<^verbatim>\<open>newFilesWithStatus\<close> from \<^verbatim>\<open>{}\<close> by the assignments
  \<^verbatim>\<open>acc[file.name] = { status: 'pending' }\<close>. With the name \<^verbatim>\<open>__proto__\<close> the
  assignment sets the prototype of the accumulator and adds no property; every other
  name becomes an own property. The spread that merges the result into the state
  copies own properties only.
\<close>

definition newFilesWithStatus :: "js_file list \<Rightarrow> (jstring \<rightharpoonup> file_status)" where
  "newFilesWithStatus newFilesArray =
     fold (\<lambda>file acc.
             if name file = str ''__proto__'' then acc
             else acc(name file \<mapsto> \<lparr>status = Pending, message = None\<rparr>))
       newFilesArray Map.empty"

definition handleFileSelect :: "js_file list option \<Rightarrow> store \<Rightarrow> store" where
  "handleFileSelect target_files s =
     (case target_files of
        None \<Rightarrow> s
      | Some newFilesArray \<Rightarrow>
          s\<lparr>cur_files := cur_files s @ newFilesArray,
            cur_fileProgress := cur_fileProgress s ++ newFilesWithStatus newFilesArray\<rparr>)"


section \<open>Import page: extraction\<close>

definition extension :: "js_file \<Rightarrow> jstring option" where
  "extension file = map_option toLowerCase (pop (split_on (cu CHR ''.'') (name file)))"

text \<open>\<^verbatim>\<open>extension || ""\<close>.\<close>

definition or_empty :: "jstring option \<Rightarrow> jstring" where
  "or_empty x = (case x of None \<Rightarrow> [] | Some e \<Rightarrow> e)"

text \<open>
  The page loop of the PDF branch: \<^verbatim>\<open>for (pageNum = 1; pageNum <= pdf.numPages; pageNum++)\<close>,
  with the text accumulated so far and the calls made so far.
\<close>

function pdf_pages :: "pdf_doc \<Rightarrow> nat \<Rightarrow> jstring \<Rightarrow> event list \<Rightarrow> event list \<times> (exn + jstring)" where
  "pdf_pages pdf pageNum text evs =
     (if pageNum \<le> numPages pdf then
        (case getPage pdf pageNum of
           Inl e \<Rightarrow> (evs @ [GetPage pageNum], Inl e)
         | Inr page \<Rightarrow>
             (case getTextContent page of
                Inl e \<Rightarrow> (evs @ [GetPage pageNum, GetTextContent pageNum], Inl e)
              | Inr items \<Rightarrow>
                  pdf_pages pdf (Suc pageNum) (text @ join (str '' '') items @ [10])
                    (evs @ [GetPage pageNum, GetTextContent pageNum])))
      else (evs, Inr text))"
  by pat_completeness auto
termination
  by (relation "measure (\<lambda>(pdf, pageNum, text, evs). Suc (numPages pdf) - pageNum)") auto

declare pdf_pages.simps [simp del]

definition pdf_text :: "pdf_doc \<Rightarrow> event list \<times> (exn + jstring)" where
  "pdf_text pdf =
     (case pdf_pages pdf 1 [] [] of
        (evs, Inl e) \<Rightarrow> (evs, Inl e)
      | (evs, Inr text) \<Rightarrow> (evs, Inr (trim text)))"

text \<open>\<^verbatim>\<open>arr[1]\<close>: \<^verbatim>\<open>undefined\<close> when the array is shorter.\<close>

definition second :: "'a list \<Rightarrow> 'a option" where
  "second xs = (case xs of _ # y # _ \<Rightarrow> Some y | _ \<Rightarrow> None)"

definition ocr_image :: "world \<Rightarrow> js_file \<Rightarrow> event list \<times> (exn + jstring)" where
  "ocr_image w file =
     (case reader_result file of
        ReaderError err \<Rightarrow>
          ([ReadAsDataURL (name file)], Inl (Exn (Some (str ''File reader error: '' @ err))))
      | ReaderLoad res \<Rightarrow>
          (if or_empty res = [] then
             ([ReadAsDataURL (name file)],
              Inl (Exn (Some (str ''File reader did not produce a result.''))))
           else
             (let base64 = second (split_on (cu CHR '','') (or_empty res)) in
              if or_empty base64 = [] then
                ([ReadAsDataURL (name file)],
                 Inl (Exn (Some (str ''Could not extract base64 data from file.''))))
              else
                (case performOCRWithGemini w (or_empty base64) (ftype file) of
                   Inl e \<Rightarrow>
                     ([ReadAsDataURL (name file), PerformOCR (or_empty base64) (ftype file)],
                      Inl e)
                 | Inr ocrText \<Rightarrow>
                     ([ReadAsDataURL (name file), PerformOCR (or_empty base64) (ftype file)],
                      Inr (or_empty ocrText))))))"

datatype extraction = Unsupported | Threw exn | Content jstring

definition of_result :: "exn + jstring \<Rightarrow> extraction" where
  "of_result r = (case r of Inl e \<Rightarrow> Threw e | Inr c \<Rightarrow> Content c)"

text \<open>
  The chain of branches on the extension at the head of the \<^verbatim>\<open>try\<close> block of
  \<^verbatim>\<open>processSingleFile\<close>, with the calls each branch makes.
\<close>

definition extract_content :: "world \<Rightarrow> js_file \<Rightarrow> event list \<times> extraction" where
  "extract_content w file =
     (let ext = extension file in
      if or_empty ext \<in> set [str ''txt'', str ''md''] then
        ([FileText (name file)], of_result (text_result file))
      else if ext = Some (str ''pdf'') then
        (case arrayBuffer_result file of
           Inl e \<Rightarrow> ([FileArrayBuffer (name file)], Threw e)
         | Inr arrayBuffer \<Rightarrow>
             (case getDocument w arrayBuffer of
                Inl e \<Rightarrow> ([FileArrayBuffer (name file), GetDocument arrayBuffer], Threw e)
              | Inr pdf \<Rightarrow>
                  (let (evs, r) = pdf_text pdf in
                   ([FileArrayBuffer (name file), GetDocument arrayBuffer] @ evs, of_result r))))
      else if ext = Some (str ''docx'') then
        (case arrayBuffer_result file of
           Inl e \<Rightarrow> ([FileArrayBuffer (name file)], Threw e)
         | Inr arrayBuffer \<Rightarrow>
             ([FileArrayBuffer (name file), ExtractRawText arrayBuffer],
              of_result (extractRawText w arrayBuffer)))
      else if or_empty ext \<in> set [str ''png'', str ''jpg'', str ''jpeg'', str ''bmp'', str ''gif''] then
        (let (evs, r) = ocr_image w file in (evs, of_result r))
      else ([], Unsupported))"

section \<open>Import page: processSingleFile and handleImport\<close>

text \<open>
  \<^verbatim>\<open>file.name.substring(0, file.name.lastIndexOf('.')) || file.name\<close>.
\<close>

definition title_of :: "js_file \<Rightarrow> jstring" where
  "title_of file =
     (let t = substring0 (name file) (lastIndexOf (cu CHR ''.'') (name file)) in
      if t = [] then name file else t)"

text \<open>The \<^verbatim>\<open>catch\<close> block of \<^verbatim>\<open>processSingleFile\<close>.\<close>

definition catch_block :: "js_file \<Rightarrow> exn \<Rightarrow> store \<Rightarrow> store" where
  "catch_block file err s =
     setFileProgress (name file) \<lparr>status = Error, message = Some (message_or_unknown err)\<rparr>
       (toast ErrorToast (str ''Failed importing '' @ name file @ str '': '' @ message_or_unknown err) s)"

text \<open>
  The part of the \<^verbatim>\<open>try\<close> block after a non-empty content has been extracted: the
  session check, \<^verbatim>\<open>createNote\<close>, \<^verbatim>\<open>processNoteWithAI\<close>.
\<close>

definition materialize :: "world \<Rightarrow> render \<Rightarrow> js_file \<Rightarrow> jstring \<Rightarrow> store \<Rightarrow> store" where
  "materialize w r file content s =
     (if \<not> user r then
        catch_block file (Exn (Some (str ''User session expired. Please log in again.''))) s
      else
        (let input = NoteInput (title_of file) content (str ''active'') False False;
             s1 = emit [CreateNote input] s
         in case createNote w input of
              Inl err \<Rightarrow> catch_block file err s1
            | Inr noteData \<Rightarrow>
                (if or_empty (map_option nd_id noteData) \<noteq> [] then
                   (let noteData_id = or_empty (map_option nd_id noteData);
                        s2 = emit [ProcessNoteWithAI noteData_id] s1
                    in case processNoteWithAI w noteData_id of
                         Some err \<Rightarrow> catch_block file err s2
                       | None \<Rightarrow>
                           toast Success
                             (str ''Successfully imported and processed: '' @ name file)
                             (setFileProgress (name file)
                                \<lparr>status = Completed, message = None\<rparr> s2))
                 else
                   catch_block file
                     (Exn (Some (str ''Failed to create note entry in the database.''))) s1)))"

definition processSingleFile :: "world \<Rightarrow> render \<Rightarrow> js_file \<Rightarrow> store \<Rightarrow> store" where
  "processSingleFile w r file s =
     (let s1 = setFileProgress (name file) \<lparr>status = Processing, message = None\<rparr> s
      in case extract_content w file of
           (evs, Unsupported) \<Rightarrow>
             (case toast_warn (str ''Unsupported file type: '' @ name file @ str ''. Skipped.'')
                     (emit evs s1) of
                Inl err \<Rightarrow> catch_block file err (emit evs s1)
              | Inr s2 \<Rightarrow>
                  setFileProgress (name file)
                    \<lparr>status = Error, message = Some (str ''Unsupported type'')\<rparr> s2)
         | (evs, Threw err) \<Rightarrow> catch_block file err (emit evs s1)
         | (evs, Content content) \<Rightarrow>
             (if trim content = [] then
                (case toast_warn
                        (str ''No content extracted from '' @ name file @
                         str ''. Skipped note creation.'')
                        (emit evs s1) of
                   Inl err \<Rightarrow> catch_block file err (emit evs s1)
                 | Inr s2 \<Rightarrow>
                     setFileProgress (name file)
                       \<lparr>status = Completed, message = Some (str ''No content'')\<rparr> s2)
              else materialize w r file content (emit evs s1)))"

text \<open>
  The \<^verbatim>\<open>for (const file of files)\<close> loop of \<^verbatim>\<open>handleImport\<close>. It reads \<^verbatim>\<open>user\<close> and
  \<^verbatim>\<open>fileProgress\<close> from the render that created the handler.
\<close>

fun import_loop :: "world \<Rightarrow> render \<Rightarrow> js_file list \<Rightarrow> bool \<Rightarrow> store \<Rightarrow> bool \<times> store" where
  "import_loop w r [] allSuccessful s = (allSuccessful, s)"
| "import_loop w r (file # rest) allSuccessful s =
     (if \<not> user r then
        (False,
         toast ErrorToast
           (str ''Session expired during import. Some files may not have been processed.'') s)
      else
        (let s1 = processSingleFile w r file s;
             allSuccessful1 =
               (if map_option status (fileProgress r (name file)) = Some Error then False
                else allSuccessful)
         in import_loop w r rest allSuccessful1 s1))"

definition summary :: "render \<Rightarrow> bool \<Rightarrow> store \<Rightarrow> store" where
  "summary r allSuccessful s =
     (if allSuccessful \<and> length (files r) > 0 then
        toast Success (str ''All '' @ digits_of (length (files r)) @ str '' selected files processed!'') s
      else if length (files r) > 0 then
        toast Info
          (str ''File processing finished. Check notifications for details on any errors.'') s
      else s)"

definition handleImport :: "world \<Rightarrow> render \<Rightarrow> store \<Rightarrow> store" where
  "handleImport w r s =
     (if length (files r) = 0 then toast ErrorToast (str ''Please select files to import'') s
      else if \<not> user r \<and> \<not> authLoading r then
        navigate (str ''/login'')
          (toast ErrorToast (str ''You are not logged in. Please log in to import files.'') s)
      else
        (let s1 = s\<lparr>cur_isProcessing := True\<rparr>;
             (allSuccessful, s2) = import_loop w r (files r) True s1;
             s3 = s2\<lparr>cur_isProcessing := False\<rparr>;
             s4 = invalidateQueries (str ''notes'') (invalidateQueries (str ''tags'') s3);
             s5 = summary r allSuccessful s4;
             s6 = (if user r then navigate (str ''/app'') s5 else navigate (str ''/'') s5)
         in s6\<lparr>cur_files := [], cur_fileProgress := Map.empty\<rparr>))"

text \<open>
  The effect of a render on the session:
  \<^verbatim>\<open>if (!authLoading && !user) { toast.error(...); navigate("/login") }\<close>.
\<close>

definition session_effect :: "render \<Rightarrow> store \<Rightarrow> store" where
  "session_effect r s =
     (if \<not> authLoading r \<and> \<not> user r then
        navigate (str ''/login'') (toast ErrorToast (str ''Your session has expired. Please log in again.'') s)
      else s)"

section \<open>Dashboard: handleToggleFavorite\<close>

text \<open>A cached note: its id, its favorite flag, and a title standing for the other fields.\<close>

record cached_note =
  note_id :: jstring
  is_favorite :: bool
  note_title :: jstring

text \<open>
  The query cache entries \<^verbatim>\<open>['notes']\<close> and \<^verbatim>\<open>['favorite-notes']\<close> (\<open>None\<close> when
  the entry has no data), and the calls made so far.
\<close>

record dashboard =
  notes_data :: "cached_note list option"
  favorite_notes_data :: "cached_note list option"
  calls :: "event list"

text \<open>
  \<^verbatim>\<open>queryClient.setQueryData(key, updater)\<close>: an updater that returns \<^verbatim>\<open>undefined\<close>
  leaves the entry as it is.
\<close>

definition setQueryData_notes ::
  "(cached_note list option \<Rightarrow> cached_note list option) \<Rightarrow> dashboard \<Rightarrow> dashboard" where
  "setQueryData_notes updater d =
     (case updater (notes_data d) of None \<Rightarrow> d | Some v \<Rightarrow> d\<lparr>notes_data := Some v\<rparr>)"

definition setQueryData_favorites ::
  "(cached_note list option \<Rightarrow> cached_note list option) \<Rightarrow> dashboard \<Rightarrow> dashboard" where
  "setQueryData_favorites updater d =
     (case updater (favorite_notes_data d) of None \<Rightarrow> d | Some v \<Rightarrow> d\<lparr>favorite_notes_data := Some v\<rparr>)"

text \<open>
  \<^verbatim>\<open>oldNotes?.map(note => note.id === noteId ? { ...note, is_favorite: v } : note)\<close>.
\<close>

definition set_flag :: "jstring \<Rightarrow> bool \<Rightarrow> cached_note list option \<Rightarrow> cached_note list option" where
  "set_flag noteId v oldNotes =
     map_option (map (\<lambda>note. if note_id note = noteId then note\<lparr>is_favorite := v\<rparr> else note))
       oldNotes"

text \<open>The two updaters of the favorites entry: removing the note, and appending it.\<close>

definition remove_favorite :: "jstring \<Rightarrow> cached_note list option \<Rightarrow> cached_note list option" where
  "remove_favorite noteId oldFavNotes =
     map_option (filter (\<lambda>note. note_id note \<noteq> noteId)) oldFavNotes"

definition add_favorite :: "dashboard \<Rightarrow> jstring \<Rightarrow> cached_note list option \<Rightarrow> cached_note list option" where
  "add_favorite d noteId oldFavNotes =
     (case oldFavNotes of
        None \<Rightarrow> None
      | Some favs \<Rightarrow>
          (case Option.bind (notes_data d) (find (\<lambda>note. note_id note = noteId)) of
             None \<Rightarrow> Some favs
           | Some noteToAdd \<Rightarrow> Some (favs @ [noteToAdd\<lparr>is_favorite := True\<rparr>])))"

text \<open>The statements before \<^verbatim>\<open>await apiToggleFavorite(...)\<close>.\<close>

definition optimistic_update :: "jstring \<Rightarrow> bool \<Rightarrow> dashboard \<Rightarrow> dashboard" where
  "optimistic_update noteId currentIsFavorite d =
     (let d1 = setQueryData_notes (set_flag noteId (\<not> currentIsFavorite)) d
      in setQueryData_favorites
           (if currentIsFavorite then remove_favorite noteId else add_favorite d1 noteId) d1)"

text \<open>The \<^verbatim>\<open>else\<close> branch taken when the call reports failure.\<close>

definition rollback :: "jstring \<Rightarrow> bool \<Rightarrow> dashboard \<Rightarrow> dashboard" where
  "rollback noteId currentIsFavorite d =
     (let d1 = setQueryData_notes (set_flag noteId currentIsFavorite) d;
          d2 = setQueryData_favorites
                 (if currentIsFavorite then add_favorite d1 noteId else remove_favorite noteId) d1
      in d2\<lparr>calls := calls d2 @ [Toast ErrorToast (str ''Failed to update favorite status.'')]\<rparr>)"

text \<open>
  \<^verbatim>\<open>handleToggleFavorite\<close>; the first argument is what \<^verbatim>\<open>apiToggleFavorite\<close> resolves to.
\<close>

definition handleToggleFavorite :: "bool \<Rightarrow> jstring \<Rightarrow> bool \<Rightarrow> dashboard \<Rightarrow> dashboard" where
  "handleToggleFavorite success noteId currentIsFavorite d =
     (let d1 = optimistic_update noteId currentIsFavorite d;
          d2 = d1\<lparr>calls := calls d1 @ [ApiToggleFavorite noteId currentIsFavorite]\<rparr>
      in if success then
           d2\<lparr>calls := calls d2 @
                [InvalidateQueries (str ''notes''), InvalidateQueries (str ''favorite-notes''),
                 Toast Success (str ''Document '' @
                   (if currentIsFavorite then str ''unfavorited'' else str ''favorited'') @ str ''.'')]\<rparr>
         else rollback noteId currentIsFavorite d2)"

section \<open>Observations on the calls made\<close>

text \<open>The page numbers passed to \<^verbatim>\<open>pdf.getPage\<close>, in call order.\<close>

fun page_of :: "event \<Rightarrow> nat list" where
  "page_of (GetPage n) = [n]"
| "page_of _ = []"

definition visited_pages :: "event list \<Rightarrow> nat list" where
  "visited_pages evs = concat (map page_of evs)"



text \<open>The arguments of the \<^verbatim>\<open>createNote\<close> and \<^verbatim>\<open>processNoteWithAI\<close> calls, in call order.\<close>

fun created_of :: "event \<Rightarrow> note_input list" where
  "created_of (CreateNote input) = [input]"
| "created_of _ = []"

definition notes_created :: "event list \<Rightarrow> note_input list" where
  "notes_created evs = concat (map created_of evs)"

fun enriched_of :: "event \<Rightarrow> jstring list" where
  "enriched_of (ProcessNoteWithAI i) = [i]"
| "enriched_of _ = []"

definition ai_calls :: "event list \<Rightarrow> jstring list" where
  "ai_calls evs = concat (map enriched_of evs)"

text \<open>A call made by one of the extractors (file readers, PDF, DOCX, OCR).\<close>

fun is_extraction_call :: "event \<Rightarrow> bool" where
  "is_extraction_call (FileText _) = True"
| "is_extraction_call (FileArrayBuffer _) = True"
| "is_extraction_call (GetDocument _) = True"
| "is_extraction_call (GetPage _) = True"
| "is_extraction_call (GetTextContent _) = True"
| "is_extraction_call (ExtractRawText _) = True"
| "is_extraction_call (ReadAsDataURL _) = True"
| "is_extraction_call (PerformOCR _ _) = True"
| "is_extraction_call _ = False"

text \<open>
  The extensions the file input accepts
  (\<^verbatim>\<open>accept=".pdf,.txt,.doc,.docx,.md,.png,.jpg,.jpeg,.bmp,.gif"\<close>).
\<close>

definition accept_extensions :: "jstring list" where
  "accept_extensions =
     [str ''pdf'', str ''txt'', str ''doc'', str ''docx'', str ''md'', str ''png'', str ''jpg'', str ''jpeg'', str ''bmp'', str ''gif'']"

text \<open>
  The identifier \<^verbatim>\<open>createNote\<close> returned, when \<^verbatim>\<open>noteData && noteData.id\<close> holds.
\<close>

definition valid_id :: "exn + note_data option \<Rightarrow> jstring option" where
  "valid_id res =
     (case res of
        Inr (Some noteData) \<Rightarrow> (if nd_id noteData \<noteq> [] then Some (nd_id noteData) else None)
      | _ \<Rightarrow> None)"

section \<open>Example inputs\<close>

text \<open>The state before any file is selected.\<close>

definition empty_store :: store where
  "empty_store =
     \<lparr>cur_files = [], cur_dragging = False, cur_isProcessing = False,
      cur_fileProgress = Map.empty, effects = []\<rparr>"

text \<open>A file of the given name whose \<^verbatim>\<open>text()\<close> answers as given.\<close>

definition text_file :: "jstring \<Rightarrow> exn + jstring \<Rightarrow> js_file" where
  "text_file n t =
     \<lparr>name = n, ftype = str ''text/plain'', text_result = t, arrayBuffer_result = Inr [],
      reader_result = ReaderLoad None\<rparr>"

text \<open>
  Services that answer every call: \<^verbatim>\<open>createNote\<close> returns an identifier made from the
  title, \<^verbatim>\<open>processNoteWithAI\<close> resolves.
\<close>

definition ok_world :: world where
  "ok_world =
     \<lparr>getDocument = (\<lambda>_. Inl (Exn (Some (str ''Invalid PDF structure'')))),
      extractRawText = (\<lambda>_. Inr []),
      performOCRWithGemini = (\<lambda>_ _. Inr None),
      createNote = (\<lambda>input. Inr (Some (NoteData (str ''id-'' @ in_title input)))),
      processNoteWithAI = (\<lambda>_. None)\<rparr>"

text \<open>The state after the given files were selected, and a signed-in render of it.\<close>

definition selected :: "js_file list \<Rightarrow> store" where
  "selected fs = handleFileSelect (Some fs) empty_store"

definition signed_in :: "js_file list \<Rightarrow> render" where
  "signed_in fs = ImportPage \<lparr>auth_user = True, auth_loading = False\<rparr> (selected fs)"

text \<open>A text file with content, and one holding white space only.\<close>

definition hello_file :: js_file where
  "hello_file = text_file (str ''note1.txt'') (Inr (str ''Hello world''))"

definition blank_file :: js_file where
  "blank_file = text_file (str ''blank.txt'') (Inr [32, 10])"

text \<open>Services whose \<^verbatim>\<open>createNote\<close> resolves without a note.\<close>

definition no_id_world :: world where
  "no_id_world = ok_world\<lparr>createNote := (\<lambda>_. Inr None)\<rparr>"

text \<open>
  Two files with the same display name: reading the first fails, the second has content.
\<close>

definition failing_a :: js_file where
  "failing_a = text_file (str ''a.txt'') (Inl (Exn (Some (str ''boom''))))"

definition good_a :: js_file where
  "good_a = text_file (str ''a.txt'') (Inr (str ''hello''))"

text \<open>A file whose reading fails with an empty message.\<close>

definition silent_file :: js_file where
  "silent_file = text_file (str ''quiet.txt'') (Inl (Exn (Some [])))"

text \<open>A file with an unsupported extension, and a batch of three text files.\<close>

definition scan_file :: js_file where
  "scan_file = text_file (str ''scan.XYZ'') (Inr (str ''x''))"

definition three_files :: "js_file list" where
  "three_files = [hello_file, text_file (str ''b.txt'') (Inr (str ''two'')), text_file (str ''c.txt'') (Inr (str ''three''))]"

text \<open>Two cached notes, both favorites, and a cache holding them in both entries.\<close>

definition note_a :: cached_note where
  "note_a = \<lparr>note_id = str ''a'', is_favorite = True, note_title = str ''Alpha''\<rparr>"

definition note_b :: cached_note where
  "note_b = \<lparr>note_id = str ''b'', is_favorite = True, note_title = str ''Beta''\<rparr>"

definition two_favorites :: dashboard where
  "two_favorites =
     \<lparr>notes_data = Some [note_a, note_b], favorite_notes_data = Some [note_a, note_b],
      calls = []\<rparr>"


text \<open>
  A session that is present when the import starts and gone before the second file
  begins: what \<^verbatim>\<open>useAuth()\<close> returns to a render made before file \<open>i\<close> (counted from 0).
\<close>

definition lost_after_first :: "nat \<Rightarrow> auth" where
  "lost_after_first i = \<lparr>auth_user = (i = 0), auth_loading = False\<rparr>"

section \<open>Properties\<close>

subsection \<open>String literals\<close>

lemma str_Nil [simp]: "str [] = []"
  by (simp add: str_def)

lemma str_eq_Nil [simp]: "str s = [] \<longleftrightarrow> s = []"
  by (simp add: str_def)

lemma str_Cons: "str (c # cs) = cu c # str cs"
  by (simp add: str_def)

subsection \<open>getContrastingTextColor\<close>

text \<open>
  Claim C10. \<^verbatim>\<open>getContrastingTextColor\<close> is total and two-valued: for every input string
  it returns \<^verbatim>\<open>'#000000'\<close> or \<^verbatim>\<open>'#FFFFFF'\<close>, and for every input that is not a
  7-character string starting with \<^verbatim>\<open>'#'\<close> it returns \<^verbatim>\<open>'#000000'\<close>. Nothing in the
  body can throw: \<^verbatim>\<open>slice\<close> and \<^verbatim>\<open>parseInt\<close> are defined on every string, and an
  unparsable pair of digits gives \<^verbatim>\<open>NaN\<close>, for which the comparison is false.
\<close>

theorem getContrastingTextColor_two_valued:
  "getContrastingTextColor s \<in> {str ''#000000'', str ''#FFFFFF''} \<and>
   (\<not> (length s = 7 \<and> take 1 s = str ''#'') \<longrightarrow> getContrastingTextColor s = str ''#000000'')"
proof -
  have range: "getContrastingTextColor s \<in> {str ''#000000'', str ''#FFFFFF''}"
    unfolding getContrastingTextColor_def Let_def by simp
  have guard: "getContrastingTextColor s = str ''#000000''"
    if "\<not> (length s = 7 \<and> take 1 s = str ''#'')"
  proof (cases "length s = 7")
    case False
    then show ?thesis unfolding getContrastingTextColor_def by simp
  next
    case True
    then obtain c t where s: "s = c # t" by (cases s) auto
    with that True have "c \<noteq> cu CHR ''#''" by (simp add: str_Cons)
    with s show ?thesis unfolding getContrastingTextColor_def by simp
  qed
  from range guard show ?thesis by blast
qed

theorem getContrastingTextColor_two_valued_witness:
  "\<not> (length (str ''red'') = 7 \<and> take 1 (str ''red'') = str ''#'') \<and>
   getContrastingTextColor (str ''red'') = str ''#000000''"
  using getContrastingTextColor_two_valued [of "str ''red''"] by (simp add: str_def)

subsection \<open>PDF extraction\<close>





lemma visited_pages_append: "visited_pages (a @ b) = visited_pages a @ visited_pages b"
  by (simp add: visited_pages_def)







subsection \<open>Processing one file\<close>

lemmas store_ops = emit_def toast_def navigate_def invalidateQueries_def setFileProgress_def

lemma pdf_pages_extraction_calls:
  "\<forall>e\<in>set evs. is_extraction_call e \<Longrightarrow>
   \<forall>e\<in>set (fst (pdf_pages pdf pageNum acc evs)). is_extraction_call e"
proof (induction pdf pageNum acc evs rule: pdf_pages.induct)
  case (1 pdf pageNum acc evs)
  show ?case
  proof (cases "pageNum \<le> numPages pdf")
    case False
    with "1.prems" show ?thesis by (subst pdf_pages.simps) simp
  next
    case True
    show ?thesis
    proof (cases "getPage pdf pageNum")
      case (Inl e)
      with True "1.prems" show ?thesis by (subst pdf_pages.simps) simp
    next
      case (Inr page)
      show ?thesis
      proof (cases "getTextContent page")
        case (Inl e)
        with True Inr "1.prems" show ?thesis by (subst pdf_pages.simps) simp
      next
        case items: (Inr its)
        have "\<forall>e\<in>set (evs @ [GetPage pageNum, GetTextContent pageNum]). is_extraction_call e"
          using "1.prems" by simp
        from "1.IH"[OF True Inr items this] True Inr items
        show ?thesis by (subst pdf_pages.simps) simp
      qed
    qed
  qed
qed

lemma pdf_text_extraction_calls: "\<forall>e\<in>set (fst (pdf_text pdf)). is_extraction_call e"
proof -
  have "fst (pdf_text pdf) = fst (pdf_pages pdf 1 [] [])"
    by (simp add: pdf_text_def split: prod.splits sum.splits)
  with pdf_pages_extraction_calls[of "[]" pdf 1 "[]"] show ?thesis by simp
qed

lemma ocr_image_extraction_calls: "\<forall>e\<in>set (fst (ocr_image w f)). is_extraction_call e"
  by (simp add: ocr_image_def Let_def split: reader_outcome.splits sum.splits)

lemma extract_content_calls: "\<forall>e\<in>set (fst (extract_content w f)). is_extraction_call e"
proof -
  let ?ext = "extension f"
  consider (plain) "or_empty ?ext \<in> set [str ''txt'', str ''md'']"
    | (pdf) "or_empty ?ext \<notin> set [str ''txt'', str ''md'']" "?ext = Some (str ''pdf'')"
    | (docx) "or_empty ?ext \<notin> set [str ''txt'', str ''md'']" "?ext \<noteq> Some (str ''pdf'')" "?ext = Some (str ''docx'')"
    | (img) "or_empty ?ext \<notin> set [str ''txt'', str ''md'']" "?ext \<noteq> Some (str ''pdf'')" "?ext \<noteq> Some (str ''docx'')"
        "or_empty ?ext \<in> set [str ''png'', str ''jpg'', str ''jpeg'', str ''bmp'', str ''gif'']"
    | (other) "or_empty ?ext \<notin> set [str ''txt'', str ''md'']" "?ext \<noteq> Some (str ''pdf'')" "?ext \<noteq> Some (str ''docx'')"
        "or_empty ?ext \<notin> set [str ''png'', str ''jpg'', str ''jpeg'', str ''bmp'', str ''gif'']"
    by blast
  then show ?thesis
  proof cases
    case plain
    then show ?thesis by (simp add: extract_content_def)
  next
    case pdf
    show ?thesis
    proof (cases "arrayBuffer_result f")
      case (Inl e)
      with pdf show ?thesis by (simp add: extract_content_def)
    next
      case buf: (Inr arrayBuffer)
      show ?thesis
      proof (cases "getDocument w arrayBuffer")
        case (Inl e)
        with pdf buf show ?thesis by (simp add: extract_content_def)
      next
        case (Inr doc)
        obtain evs res where pt: "pdf_text doc = (evs, res)" by (cases "pdf_text doc")
        with pdf_text_extraction_calls[of doc] have "\<forall>e\<in>set evs. is_extraction_call e" by simp
        with pdf buf Inr pt show ?thesis by (simp add: extract_content_def)
      qed
    qed
  next
    case docx
    then show ?thesis by (simp add: extract_content_def split: sum.splits)
  next
    case img
    obtain evs res where oi: "ocr_image w f = (evs, res)" by (cases "ocr_image w f")
    with ocr_image_extraction_calls[of w f] have "\<forall>e\<in>set evs. is_extraction_call e" by simp
    with img oi show ?thesis by (simp add: extract_content_def)
  next
    case other
    then show ?thesis by (simp add: extract_content_def)
  qed
qed

lemma extraction_no_note_calls:
  "\<forall>e\<in>set evs. is_extraction_call e \<Longrightarrow> notes_created evs = [] \<and> ai_calls evs = []"
proof (induction evs)
  case Nil
  then show ?case by (simp add: notes_created_def ai_calls_def)
next
  case (Cons e evs)
  then show ?case by (cases e) (simp_all add: notes_created_def ai_calls_def)
qed

lemma notes_created_append: "notes_created (a @ b) = notes_created a @ notes_created b"
  by (simp add: notes_created_def)

lemma ai_calls_append: "ai_calls (a @ b) = ai_calls a @ ai_calls b"
  by (simp add: ai_calls_def)

lemmas process_defs = processSingleFile_def materialize_def catch_block_def toast_warn_def
  store_ops Let_def

lemma processSingleFile_unsupported:
  "extract_content w f = (evs, Unsupported) \<Longrightarrow>
   processSingleFile w r f s =
     s\<lparr>cur_fileProgress := (cur_fileProgress s)
          (name f \<mapsto>
             \<lparr>status = Error, message = Some (str ''toast.warn is not a function'')\<rparr>),
       effects := effects s @ evs @
          [Toast ErrorToast
             (str ''Failed importing '' @ name f @ str '': '' @
              str ''toast.warn is not a function'')]\<rparr>"
  by (simp add: process_defs)

lemma extract_content_outside_accept:
  "or_empty (extension f) \<notin> set accept_extensions \<Longrightarrow> extract_content w f = ([], Unsupported)"
  by (auto simp: extract_content_def accept_extensions_def Let_def or_empty_def split: option.splits)


lemma processSingleFile_outside_accept:
  "or_empty (extension f) \<notin> set accept_extensions \<Longrightarrow>
   processSingleFile w r f s =
     s\<lparr>cur_fileProgress := (cur_fileProgress s)
          (name f \<mapsto>
             \<lparr>status = Error, message = Some (str ''toast.warn is not a function'')\<rparr>),
       effects := effects s @
          [Toast ErrorToast
             (str ''Failed importing '' @ name f @ str '': '' @
              str ''toast.warn is not a function'')]\<rparr>"
  using processSingleFile_unsupported[OF extract_content_outside_accept, of f w r s] by simp

lemma processSingleFile_threw:
  "extract_content w f = (evs, Threw e) \<Longrightarrow>
   processSingleFile w r f s =
     s\<lparr>cur_fileProgress := (cur_fileProgress s)
          (name f \<mapsto> \<lparr>status = Error, message = Some (message_or_unknown e)\<rparr>),
       effects := effects s @ evs @
          [Toast ErrorToast (str ''Failed importing '' @ name f @ str '': '' @ message_or_unknown e)]\<rparr>"
  by (simp add: process_defs)

lemma processSingleFile_no_content:
  "extract_content w f = (evs, Content c) \<Longrightarrow> trim c = [] \<Longrightarrow>
   processSingleFile w r f s =
     s\<lparr>cur_fileProgress := (cur_fileProgress s)
          (name f \<mapsto>
             \<lparr>status = Error, message = Some (str ''toast.warn is not a function'')\<rparr>),
       effects := effects s @ evs @
          [Toast ErrorToast
             (str ''Failed importing '' @ name f @ str '': '' @
              str ''toast.warn is not a function'')]\<rparr>"
  by (simp add: process_defs)

lemma processSingleFile_frame:
  "k \<noteq> name f \<Longrightarrow> cur_fileProgress (processSingleFile w r f s) k = cur_fileProgress s k"
  by (simp add: process_defs split: prod.splits extraction.splits sum.splits option.splits)

lemma processSingleFile_own:
  "cur_fileProgress (processSingleFile w r f s) (name f) =
   cur_fileProgress (processSingleFile w r f t) (name f)"
  by (simp add: process_defs split: prod.splits extraction.splits sum.splits option.splits)

lemma processSingleFile_terminal:
  "\<exists>st. cur_fileProgress (processSingleFile w r f s) (name f) = Some st \<and>
     status st \<in> {Completed, Error}"
  by (simp add: process_defs split: prod.splits extraction.splits sum.splits option.splits)

lemma processSingleFile_files:
  "cur_files (processSingleFile w r f s) = cur_files s"
  by (simp add: process_defs split: prod.splits extraction.splits sum.splits option.splits)

lemma processSingleFile_content:
  "extract_content w f = (evs, Content c) \<Longrightarrow> trim c \<noteq> [] \<Longrightarrow>
   processSingleFile w r f s = materialize w r f c (emit evs (setFileProgress (name f) \<lparr>status = Processing, message = None\<rparr> s))"
  by (simp add: processSingleFile_def)


lemmas example_defs = empty_store_def text_file_def ok_world_def selected_def signed_in_def
  ImportPage_def handleFileSelect_def newFilesWithStatus_def

text \<open>
  Claim C4 fails on the code. For a queued file whose extension is outside
  \<^verbatim>\<open>pdf, txt, doc, docx, md, png, jpg, jpeg, bmp, gif\<close> the else branch starts with
  \<^verbatim>\<open>toast.warn(...)\<close>, which throws inside the \<^verbatim>\<open>try\<close> block. For \<^verbatim>\<open>scan.XYZ\<close>: no
  extraction call and no \<^verbatim>\<open>createNote\<close> are made, but no warning is shown; the only call
  is the error toast of the \<^verbatim>\<open>catch\<close> block, and the status is \<^verbatim>\<open>error\<close> with the
  message of the \<^verbatim>\<open>TypeError\<close>, not \<^verbatim>\<open>'Unsupported type'\<close>.
\<close>

theorem unsupported_type_ends_in_catch:
  "or_empty (extension scan_file) \<notin> set accept_extensions \<and>
   extract_content ok_world scan_file = ([], Unsupported) \<and>
   cur_fileProgress
     (processSingleFile ok_world (signed_in [scan_file]) scan_file (selected [scan_file]))
     (str ''scan.XYZ'') =
     Some \<lparr>status = Error, message = Some (str ''toast.warn is not a function'')\<rparr> \<and>
   effects
     (processSingleFile ok_world (signed_in [scan_file]) scan_file (selected [scan_file])) =
     [Toast ErrorToast (str ''Failed importing scan.XYZ: toast.warn is not a function'')]"
  by code_simp

lemma materialize_effects:
  "\<exists>k m. effects (materialize w r f c s) =
     effects s @
     (if user r then
        CreateNote (NoteInput (title_of f) c (str ''active'') False False) #
        (case valid_id (createNote w (NoteInput (title_of f) c (str ''active'') False False)) of
           None \<Rightarrow> [] | Some i \<Rightarrow> [ProcessNoteWithAI i])
      else []) @ [Toast k m]"
  by (auto simp: process_defs valid_id_def or_empty_def split: sum.splits option.splits)

lemma materialize_no_id:
  "user r \<Longrightarrow> valid_id (createNote w (NoteInput (title_of f) c (str ''active'') False False)) = None \<Longrightarrow>
   \<exists>m. cur_fileProgress (materialize w r f c s) (name f) =
     Some \<lparr>status = Error, message = Some m\<rparr>"
  by (auto simp: process_defs valid_id_def or_empty_def split: sum.splits option.splits if_splits)

lemma processSingleFile_notes_created:
  "notes_created (effects (processSingleFile w r f s)) =
   notes_created (effects s) @
   (case snd (extract_content w f) of
      Content c \<Rightarrow>
        (if trim c \<noteq> [] \<and> user r then [NoteInput (title_of f) c (str ''active'') False False] else [])
    | _ \<Rightarrow> [])"
proof -
  obtain evs x where ex: "extract_content w f = (evs, x)" by (cases "extract_content w f")
  with extract_content_calls[of w f] have "\<forall>e\<in>set evs. is_extraction_call e" by simp
  then have quiet: "notes_created evs = []" by (simp add: extraction_no_note_calls)
  show ?thesis
  proof (cases x)
    case Unsupported
    with ex quiet show ?thesis
      by (simp add: processSingleFile_unsupported notes_created_append) (simp add: notes_created_def)
  next
    case (Threw e)
    with ex quiet show ?thesis
      by (simp add: processSingleFile_threw notes_created_append) (simp add: notes_created_def)
  next
    case (Content c)
    show ?thesis
    proof (cases "trim c = []")
      case True
      with ex Content quiet show ?thesis
        by (simp add: processSingleFile_no_content notes_created_append) (simp add: notes_created_def)
    next
      case False
      from materialize_effects[of w r f c
          "emit evs (setFileProgress (name f) \<lparr>status = Processing, message = None\<rparr> s)"]
      obtain k m where "effects (processSingleFile w r f s) =
          effects s @ evs @
          (if user r then
             CreateNote (NoteInput (title_of f) c (str ''active'') False False) #
             (case valid_id (createNote w (NoteInput (title_of f) c (str ''active'') False False)) of
                None \<Rightarrow> [] | Some i \<Rightarrow> [ProcessNoteWithAI i])
           else []) @ [Toast k m]"
        using ex Content False by (auto simp: processSingleFile_content store_ops)
      with ex Content False quiet show ?thesis
        by (auto simp: notes_created_append) (auto simp: notes_created_def split: option.splits)
    qed
  qed
qed


text \<open>
  Claim C7 fails on the code. When the extracted text is empty after trimming, the
  branch starts with \<^verbatim>\<open>toast.warn(...)\<close>, which throws inside the \<^verbatim>\<open>try\<close> block. For
  a text file holding white space only: no note is created, but the status ends as
  \<^verbatim>\<open>error\<close> with the message of the \<^verbatim>\<open>TypeError\<close>, not as \<^verbatim>\<open>completed\<close> with
  \<^verbatim>\<open>'No content'\<close>. (That \<^verbatim>\<open>createNote\<close> is called only for content that is non-empty
  after trimming holds: \<open>processSingleFile_notes_created\<close>.)
\<close>

theorem empty_content_ends_in_catch:
  "extract_content ok_world blank_file = ([FileText (str ''blank.txt'')], Content [32, 10]) \<and>
   trim [32, 10] = [] \<and>
   cur_fileProgress
     (processSingleFile ok_world (signed_in [blank_file]) blank_file (selected [blank_file]))
     (str ''blank.txt'') =
     Some \<lparr>status = Error, message = Some (str ''toast.warn is not a function'')\<rparr> \<and>
   effects
     (processSingleFile ok_world (signed_in [blank_file]) blank_file (selected [blank_file])) =
     [FileText (str ''blank.txt''),
      Toast ErrorToast (str ''Failed importing blank.txt: toast.warn is not a function'')] \<and>
   notes_created (effects
     (processSingleFile ok_world (signed_in [blank_file]) blank_file (selected [blank_file])))
     = []"
  by code_simp

text \<open>
  Claim C6. For a file with non-empty content, processed under a signed-in render:
  \<^verbatim>\<open>createNote\<close> is called with the default flags (status \<^verbatim>\<open>active\<close>, not favorite, not
  archived); \<^verbatim>\<open>processNoteWithAI\<close> is called only after it, only when it returned a
  valid identifier, and with exactly that identifier; when no valid identifier came back
  the file is recorded as \<^verbatim>\<open>error\<close> and no enrichment call is made.
\<close>

theorem materializer_order:
  assumes "extract_content w f = (evs, Content c)" and "trim c \<noteq> []" and "user r"
  shows "(let input = NoteInput (title_of f) c (str ''active'') False False;
              s1 = processSingleFile w r f s
          in (\<exists>k m. effects s1 =
                effects s @ evs @ CreateNote input #
                (case valid_id (createNote w input) of
                   None \<Rightarrow> [] | Some i \<Rightarrow> [ProcessNoteWithAI i]) @ [Toast k m]) \<and>
             notes_created evs = [] \<and> ai_calls evs = [] \<and>
             ai_calls (effects s1) = ai_calls (effects s) @
                (case valid_id (createNote w input) of None \<Rightarrow> [] | Some i \<Rightarrow> [i]) \<and>
             (valid_id (createNote w input) = None \<longrightarrow>
                (\<exists>m. cur_fileProgress s1 (name f) =
                   Some \<lparr>status = Error, message = Some m\<rparr>)))"
proof -
  let ?input = "NoteInput (title_of f) c (str ''active'') False False"
  let ?s0 = "emit evs (setFileProgress (name f) \<lparr>status = Processing, message = None\<rparr> s)"
  have run: "processSingleFile w r f s = materialize w r f c ?s0"
    using assms by (simp add: processSingleFile_content)
  from extract_content_calls[of w f] assms(1) have "\<forall>e\<in>set evs. is_extraction_call e" by simp
  then have quiet: "notes_created evs = []" "ai_calls evs = []"
    by (simp_all add: extraction_no_note_calls)
  from materialize_effects[of w r f c ?s0] assms(3)
  obtain k m where eff: "effects (processSingleFile w r f s) =
      effects s @ evs @ CreateNote ?input #
      (case valid_id (createNote w ?input) of None \<Rightarrow> [] | Some i \<Rightarrow> [ProcessNoteWithAI i]) @
      [Toast k m]"
    by (auto simp: run store_ops)
  have ai: "ai_calls (effects (processSingleFile w r f s)) = ai_calls (effects s) @
      (case valid_id (createNote w ?input) of None \<Rightarrow> [] | Some i \<Rightarrow> [i])"
    unfolding eff using quiet(2)
    by (simp add: ai_calls_append) (simp add: ai_calls_def split: option.splits)
  have err: "\<exists>m. cur_fileProgress (processSingleFile w r f s) (name f) =
      Some \<lparr>status = Error, message = Some m\<rparr>"
    if "valid_id (createNote w ?input) = None"
    unfolding run using materialize_no_id[OF assms(3) that] .
  from eff quiet ai err show ?thesis
    unfolding Let_def by blast
qed

theorem materializer_order_witness:
  "extract_content ok_world hello_file = ([FileText (str ''note1.txt'')], Content (str ''Hello world'')) \<and>
   trim (str ''Hello world'') \<noteq> [] \<and> user (signed_in [hello_file]) \<and>
   ai_calls (effects
     (processSingleFile ok_world (signed_in [hello_file]) hello_file (selected [hello_file])))
     = [str ''id-note1''] \<and>
   valid_id (createNote no_id_world (NoteInput (str ''note1'') (str ''Hello world'') (str ''active'') False False))
     = None \<and>
   (\<exists>m. cur_fileProgress
      (processSingleFile no_id_world (signed_in [hello_file]) hello_file (selected [hello_file]))
      (str ''note1.txt'') = Some \<lparr>status = Error, message = Some m\<rparr>) \<and>
   ai_calls (effects
     (processSingleFile no_id_world (signed_in [hello_file]) hello_file (selected [hello_file])))
     = []"
proof -
  have e1: "extract_content ok_world hello_file = ([FileText (str ''note1.txt'')], Content (str ''Hello world''))"
    and e2: "extract_content no_id_world hello_file =
      ([FileText (str ''note1.txt'')], Content (str ''Hello world''))"
    and t: "trim (str ''Hello world'') \<noteq> []"
    and ti: "title_of hello_file = str ''note1''"
    by code_simp+
  have u: "user (signed_in [hello_file])"
    and n: "name hello_file = str ''note1.txt''"
    and e: "effects (selected [hello_file]) = []"
    by (simp_all add: hello_file_def example_defs)
  have v1: "valid_id (createNote ok_world (NoteInput (str ''note1'') (str ''Hello world'') (str ''active'') False False))
      = Some (str ''id-note1'')"
    and v2: "valid_id (createNote no_id_world
        (NoteInput (str ''note1'') (str ''Hello world'') (str ''active'') False False)) = None"
    by (simp_all add: valid_id_def ok_world_def no_id_world_def str_def)
  from materializer_order[OF e1 t u, of "selected [hello_file]"]
    materializer_order[OF e2 t u, of "selected [hello_file]"]
    e1 t u n e v1 v2 ti
  show ?thesis by (simp add: Let_def ai_calls_def)
qed

subsection \<open>Selecting files\<close>







subsection \<open>The import loop\<close>

lemma import_loop_signed_in:
  "user r \<Longrightarrow> snd (import_loop w r fs ok s) = fold (processSingleFile w r) fs s"
  by (induction fs arbitrary: ok s) (simp_all add: Let_def)

lemma import_loop_flag:
  "user r \<Longrightarrow> fst (import_loop w r fs ok s) =
     (ok \<and> (\<forall>f\<in>set fs. map_option status (fileProgress r (name f)) \<noteq> Some Error))"
  by (induction fs arbitrary: ok s) (auto simp: Let_def)

lemma fold_process_frame:
  "k \<notin> name ` set fs \<Longrightarrow>
   cur_fileProgress (fold (processSingleFile w r) fs s) k = cur_fileProgress s k"
  by (induction fs arbitrary: s) (simp_all add: processSingleFile_frame)

lemma fold_process_own:
  "distinct (map name fs) \<Longrightarrow> j < length fs \<Longrightarrow>
   cur_fileProgress (fold (processSingleFile w r) fs s) (name (fs ! j)) =
   cur_fileProgress (processSingleFile w r (fs ! j) t) (name (fs ! j))"
proof (induction fs arbitrary: s j)
  case Nil
  then show ?case by simp
next
  case (Cons f fs)
  show ?case
  proof (cases j)
    case 0
    from Cons.prems(1) have "name f \<notin> name ` set fs" by auto
    then have "cur_fileProgress (fold (processSingleFile w r) fs (processSingleFile w r f s)) (name f)
        = cur_fileProgress (processSingleFile w r f s) (name f)"
      by (rule fold_process_frame)
    with 0 show ?thesis using processSingleFile_own[of w r f s t] by simp
  next
    case (Suc i)
    with Cons.prems have "distinct (map name fs)" "i < length fs" by simp_all
    from Cons.IH[OF this] Suc show ?thesis by simp
  qed
qed

text \<open>
  Claim C1, as the code has it. In a batch whose display names are pairwise distinct,
  run by a handler whose render has a session, let file \<open>k\<close> throw during extraction.
  Then every file of the batch ends with status \<^verbatim>\<open>completed\<close> or \<^verbatim>\<open>error\<close>; the
  entry of file \<open>k\<close> is \<^verbatim>\<open>error\<close> with the message of the thrown value, or
  \<^verbatim>\<open>'Unknown error'\<close> when that message is absent or empty; the entry of every other
  file is the one that processing this file alone records, from any state; and it stays
  the same when file \<open>k\<close> is replaced by any file of the same name.
\<close>

theorem failure_isolation:
  assumes "user r" and "distinct (map name fs)" and "k < length fs"
    and "extract_content w (fs ! k) = (evs, Threw e)"
  shows "(let s1 = snd (import_loop w r fs ok s) in
     (\<forall>j<length fs. \<exists>st. cur_fileProgress s1 (name (fs ! j)) = Some st \<and>
        status st \<in> {Completed, Error}) \<and>
     cur_fileProgress s1 (name (fs ! k)) =
       Some \<lparr>status = Error, message = Some (message_or_unknown e)\<rparr> \<and>
     (\<forall>j<length fs. j \<noteq> k \<longrightarrow>
        (\<forall>t. cur_fileProgress s1 (name (fs ! j)) =
           cur_fileProgress (processSingleFile w r (fs ! j) t) (name (fs ! j)))) \<and>
     (\<forall>g. name g = name (fs ! k) \<longrightarrow>
        (\<forall>j<length fs. j \<noteq> k \<longrightarrow>
           cur_fileProgress (snd (import_loop w r (fs[k := g]) ok s)) (name (fs ! j)) =
           cur_fileProgress s1 (name (fs ! j)))))"
proof -
  let ?s1 = "snd (import_loop w r fs ok s)"
  have run: "?s1 = fold (processSingleFile w r) fs s"
    using assms(1) by (rule import_loop_signed_in)
  have own: "cur_fileProgress ?s1 (name (fs ! j)) =
      cur_fileProgress (processSingleFile w r (fs ! j) t) (name (fs ! j))"
    if "j < length fs" for j t
    unfolding run using assms(2) that by (rule fold_process_own)
  have terminal: "\<exists>st. cur_fileProgress ?s1 (name (fs ! j)) = Some st \<and>
      status st \<in> {Completed, Error}" if "j < length fs" for j
    using own[OF that, of s] processSingleFile_terminal[of w r "fs ! j" s] by simp
  have failed: "cur_fileProgress ?s1 (name (fs ! k)) =
      Some \<lparr>status = Error, message = Some (message_or_unknown e)\<rparr>"
    using own[OF assms(3), of s] by (simp add: processSingleFile_threw[OF assms(4)])
  have swapped: "cur_fileProgress (snd (import_loop w r (fs[k := g]) ok s)) (name (fs ! j)) =
      cur_fileProgress ?s1 (name (fs ! j))"
    if g: "name g = name (fs ! k)" and j: "j < length fs" "j \<noteq> k" for g j
  proof -
    have names: "map name (fs[k := g]) = map name fs"
      using g assms(3) by (simp add: map_update list_update_same_conv)
    then have d: "distinct (map name (fs[k := g]))" using assms(2) by simp
    have "cur_fileProgress (fold (processSingleFile w r) (fs[k := g]) s) (name ((fs[k := g]) ! j))
        = cur_fileProgress (processSingleFile w r ((fs[k := g]) ! j) s) (name ((fs[k := g]) ! j))"
      using d j(1) by (intro fold_process_own) simp_all
    with j show ?thesis
      using own[OF j(1), of s] assms(1) by (simp add: import_loop_signed_in)
  qed
  from terminal failed own swapped show ?thesis
    unfolding Let_def by blast
qed


theorem failure_isolation_witness:
  "user (signed_in [failing_a, hello_file]) \<and>
   distinct (map name [failing_a, hello_file]) \<and> (0::nat) < length [failing_a, hello_file] \<and>
   extract_content ok_world ([failing_a, hello_file] ! 0) =
     ([FileText (str ''a.txt'')], Threw (Exn (Some (str ''boom'')))) \<and>
   cur_fileProgress
     (snd (import_loop ok_world (signed_in [failing_a, hello_file]) [failing_a, hello_file] True
        (selected [failing_a, hello_file])))
     (name ([failing_a, hello_file] ! 0)) = Some \<lparr>status = Error, message = Some (str ''boom'')\<rparr> \<and>
   name good_a = name ([failing_a, hello_file] ! 0) \<and> (1::nat) \<noteq> 0 \<and>
   cur_fileProgress
     (snd (import_loop ok_world (signed_in [failing_a, hello_file]) [failing_a, hello_file] True
        (selected [failing_a, hello_file]))) (str ''note1.txt'') =
   cur_fileProgress
     (snd (import_loop ok_world (signed_in [failing_a, hello_file])
        ([failing_a, hello_file][0 := good_a]) True (selected [failing_a, hello_file])))
     (str ''note1.txt'') \<and>
   cur_fileProgress
     (snd (import_loop ok_world (signed_in [failing_a, hello_file]) [failing_a, hello_file] True
        (selected [failing_a, hello_file]))) (str ''note1.txt'') =
     Some \<lparr>status = Completed, message = None\<rparr>"
proof -
  have u: "user (signed_in [failing_a, hello_file])"
    by (simp add: example_defs)
  have d: "distinct (map name [failing_a, hello_file])"
    by (simp add: failing_a_def hello_file_def text_file_def str_def cu_def)
  have k: "(0::nat) < length [failing_a, hello_file]"
    by simp
  have x: "extract_content ok_world ([failing_a, hello_file] ! 0) =
     ([FileText (str ''a.txt'')], Threw (Exn (Some (str ''boom''))))"
    by code_simp
  have g: "name good_a = name ([failing_a, hello_file] ! 0)"
    and n: "name hello_file = str ''note1.txt''"
    by (simp_all add: failing_a_def good_a_def hello_file_def text_file_def)
  have own: "cur_fileProgress
      (processSingleFile ok_world (signed_in [failing_a, hello_file]) hello_file empty_store)
      (str ''note1.txt'') = Some \<lparr>status = Completed, message = None\<rparr>"
    by code_simp
  have j: "(1::nat) < length [failing_a, hello_file]" "(1::nat) \<noteq> 0"
    by simp_all
  note th = failure_isolation[OF u d k x, of True "selected [failing_a, hello_file]",
      unfolded Let_def]
  note failed = th[THEN conjunct2, THEN conjunct1]
  note alone = th[THEN conjunct2, THEN conjunct2, THEN conjunct1, rule_format, OF j,
      of empty_store]
  note swap = th[THEN conjunct2, THEN conjunct2, THEN conjunct2, rule_format, OF g j]
  have second: "cur_fileProgress
     (snd (import_loop ok_world (signed_in [failing_a, hello_file]) [failing_a, hello_file] True
        (selected [failing_a, hello_file]))) (str ''note1.txt'') =
     Some \<lparr>status = Completed, message = None\<rparr>"
    using alone own unfolding n nth_Cons_Suc nth_Cons_0 One_nat_def by (simp only:)
  have third: "cur_fileProgress
     (snd (import_loop ok_world (signed_in [failing_a, hello_file]) [failing_a, hello_file] True
        (selected [failing_a, hello_file]))) (str ''note1.txt'') =
     cur_fileProgress
     (snd (import_loop ok_world (signed_in [failing_a, hello_file])
        ([failing_a, hello_file][0 := good_a]) True (selected [failing_a, hello_file])))
     (str ''note1.txt'')"
    using swap[symmetric] unfolding nth_Cons_Suc nth_Cons_0 One_nat_def n by (simp only:)
  have first: "cur_fileProgress
     (snd (import_loop ok_world (signed_in [failing_a, hello_file]) [failing_a, hello_file] True
        (selected [failing_a, hello_file])))
     (name ([failing_a, hello_file] ! 0)) = Some \<lparr>status = Error, message = Some (str ''boom'')\<rparr>"
    using failed by (simp only: message_or_unknown.simps str_eq_Nil list.distinct if_False)
  show ?thesis
    by (intro conjI; fact)
qed

text \<open>
  Claim C1 as stated fails in two ways. The status map is keyed by display name: when a
  later file of the same name is imported, the entry of the file that threw ends as
  \<^verbatim>\<open>completed\<close>. And an empty message of the thrown value is recorded as
  \<^verbatim>\<open>'Unknown error'\<close>.
\<close>

theorem failure_isolation_counterexample:
  "extract_content ok_world failing_a = ([FileText (str ''a.txt'')], Threw (Exn (Some (str ''boom'')))) \<and>
   cur_fileProgress
     (snd (import_loop ok_world (signed_in [failing_a, good_a]) [failing_a, good_a] True
        (selected [failing_a, good_a])))
     (name failing_a) = Some \<lparr>status = Completed, message = None\<rparr> \<and>
   extract_content ok_world silent_file = ([FileText (str ''quiet.txt'')], Threw (Exn (Some []))) \<and>
   cur_fileProgress
     (snd (import_loop ok_world (signed_in [silent_file]) [silent_file] True
        (selected [silent_file])))
     (name silent_file) = Some \<lparr>status = Error, message = Some (str ''Unknown error'')\<rparr>"
  by code_simp

text \<open>
  Claim C3 fails on the code. After \<^verbatim>\<open>processSingleFile\<close> the loop tests
  \<^verbatim>\<open>fileProgress[file.name]?.status === 'error'\<close> on the \<^verbatim>\<open>fileProgress\<close> of the
  render that created the handler, where every queued file is still \<^verbatim>\<open>pending\<close>
  (\<open>import_loop_flag\<close>: the flag depends on that render only). For a batch of one text
  file whose reading fails, the recorded status is \<^verbatim>\<open>error\<close>, and the summary is the
  success toast.
\<close>

theorem summary_success_despite_error:
  "user (signed_in [failing_a]) \<and>
   cur_fileProgress
     (snd (import_loop ok_world (signed_in [failing_a]) [failing_a] True
        ((selected [failing_a])\<lparr>cur_isProcessing := True\<rparr>)))
     (str ''a.txt'') = Some \<lparr>status = Error, message = Some (str ''boom'')\<rparr> \<and>
   effects (handleImport ok_world (signed_in [failing_a]) (selected [failing_a])) =
     [FileText (str ''a.txt''),
      Toast ErrorToast (str ''Failed importing a.txt: boom''),
      InvalidateQueries (str ''tags''), InvalidateQueries (str ''notes''),
      Toast Success (str ''All 1 selected files processed!''),
      Navigate (str ''/app'')]"
  by code_simp

text \<open>
  Claim C2 fails on the code. The loop tests the \<^verbatim>\<open>user\<close> constant of the render that
  created the handler; a session lost while the batch runs changes what later renders
  see, not this constant (\<open>import_loop_signed_in\<close>: with a session in that render every
  file is processed). For three text files whose import starts under a session that is
  gone before the second file begins, the handler still holds the first render: all
  three files are extracted and get a note, none stays \<^verbatim>\<open>pending\<close>, and the handler
  ends with \<^verbatim>\<open>navigate("/app")\<close>. (The redirect to \<^verbatim>\<open>/login\<close> is made by
  \<open>session_effect\<close> of a later render; it does not stop the loop.)
\<close>

theorem session_loss_unnoticed:
  "ImportPage (lost_after_first 0) (selected three_files) = signed_in three_files \<and>
   user (ImportPage (lost_after_first 0) (selected three_files)) \<and>
   \<not> user (ImportPage (lost_after_first 1) (selected three_files)) \<and>
   map (\<lambda>n. map_option status
          (cur_fileProgress
             (snd (import_loop ok_world (signed_in three_files) three_files True
                ((selected three_files)\<lparr>cur_isProcessing := True\<rparr>))) n))
     [str ''note1.txt'', str ''b.txt'', str ''c.txt''] = [Some Completed, Some Completed, Some Completed] \<and>
   notes_created (effects (handleImport ok_world (signed_in three_files) (selected three_files))) =
     [NoteInput (str ''note1'') (str ''Hello world'') (str ''active'') False False,
      NoteInput (str ''b'') (str ''two'') (str ''active'') False False,
      NoteInput (str ''c'') (str ''three'') (str ''active'') False False] \<and>
   last (effects (handleImport ok_world (signed_in three_files) (selected three_files))) =
     Navigate (str ''/app'')"
proof -
  have renders: "ImportPage (lost_after_first 0) (selected three_files) = signed_in three_files"
    "user (ImportPage (lost_after_first 0) (selected three_files))"
    "\<not> user (ImportPage (lost_after_first 1) (selected three_files))"
    by (simp_all add: lost_after_first_def signed_in_def ImportPage_def)
  have run: "map (\<lambda>n. map_option status
          (cur_fileProgress
             (snd (import_loop ok_world (signed_in three_files) three_files True
                ((selected three_files)\<lparr>cur_isProcessing := True\<rparr>))) n))
     [str ''note1.txt'', str ''b.txt'', str ''c.txt''] = [Some Completed, Some Completed, Some Completed]"
    "notes_created (effects (handleImport ok_world (signed_in three_files) (selected three_files))) =
     [NoteInput (str ''note1'') (str ''Hello world'') (str ''active'') False False,
      NoteInput (str ''b'') (str ''two'') (str ''active'') False False,
      NoteInput (str ''c'') (str ''three'') (str ''active'') False False]"
    "last (effects (handleImport ok_world (signed_in three_files) (selected three_files))) =
     Navigate (str ''/app'')"
    by code_simp+
  from renders run show ?thesis by (intro conjI)
qed

subsection \<open>Toggling a favorite\<close>

text \<open>
  Claim C8 fails on the code. When un-favoriting fails, the rollback appends the note
  to the end of the favorites entry instead of restoring its position: with the
  favorites \<open>[a, b]\<close>, a failed toggle of \<open>a\<close> leaves \<open>[b, a]\<close>. The notes entry is
  restored.
\<close>

theorem failed_unfavorite_reorders:
  "favorite_notes_data two_favorites = Some [note_a, note_b] \<and>
   favorite_notes_data (handleToggleFavorite False (str ''a'') True two_favorites) =
     Some [note_b, note_a] \<and>
   notes_data (handleToggleFavorite False (str ''a'') True two_favorites) = notes_data two_favorites"
  by (simp add: two_favorites_def note_a_def note_b_def handleToggleFavorite_def
      optimistic_update_def rollback_def setQueryData_notes_def setQueryData_favorites_def
      set_flag_def remove_favorite_def add_favorite_def Let_def str_def cu_def)

text \<open>
  What does hold: the flag is flipped before the call, a failed call restores the flags
  of the notes entry when the argument is the cached value, and a failed favoriting
  restores the favorites entry.
\<close>

lemmas toggle_defs = handleToggleFavorite_def optimistic_update_def rollback_def
  setQueryData_notes_def setQueryData_favorites_def set_flag_def remove_favorite_def
  add_favorite_def Let_def

lemma optimistic_update_flips:
  "notes_data d = Some ns \<Longrightarrow>
   notes_data (optimistic_update i cur d) =
     Some (map (\<lambda>n. if note_id n = i then n\<lparr>is_favorite := \<not> cur\<rparr> else n) ns)"
  by (auto simp: toggle_defs split: option.splits)

lemma failed_toggle_restores_flags:
  "notes_data d = Some ns \<Longrightarrow> \<forall>n\<in>set ns. note_id n = i \<longrightarrow> is_favorite n = cur \<Longrightarrow>
   notes_data (handleToggleFavorite False i cur d) = Some ns"
  by (auto simp: toggle_defs map_idI split: option.splits intro!: map_idI)

lemma find_Some_holds: "find P xs = Some x \<Longrightarrow> P x"
  by (auto simp: find_Some_iff)

lemma failed_favorite_restores_favorites:
  "favorite_notes_data d = Some favs \<Longrightarrow> \<forall>n\<in>set favs. note_id n \<noteq> i \<Longrightarrow>
   favorite_notes_data (handleToggleFavorite False i False d) = Some favs"
  by (auto simp: toggle_defs split: option.splits dest: find_Some_holds)

end
